theory Spec2Isabelle
  imports Main "HOL-Library.AList"
begin

section \<open>Values, buffers and errors\<close>

text \<open>
  The errors the contracts raise. The JavaScript contracts throw \<open>Error\<close> objects that
  differ only in their message; each message is one constructor:
  \<^item> \<open>Unauthorized\<close>: "Client not autorized, set abac.creator=true";
  \<^item> \<open>AlreadyExists id\<close>: "The asset id already exists";
  \<^item> \<open>NotFound id\<close>: "The asset id does not exist";
  \<^item> \<open>IdentityResolutionError\<close>: "failed to retrieve Client ID";
  \<^item> \<open>InvalidCharacterError\<close>: what \<open>atob\<close> throws on text that is not base64;
  \<^item> \<open>TypeError\<close>: calling what is not a function, reading or writing a property of
    \<open>null\<close> or (in strict mode) writing one of a primitive;
  \<^item> \<open>SyntaxError\<close>: \<open>JSON.parse\<close> on text that is not JSON;
  \<^item> \<open>StubError\<close>: the ledger stub refusing a key that is not a string.
  The Go contract returns \<open>error\<close> values; beside the above it has
  \<^item> \<open>SyntaxError\<close> also for \<open>json.Unmarshal\<close> on bytes that are not JSON
    ("unexpected end of JSON input" on none);
  \<^item> \<open>UnmarshalTypeError\<close>: \<open>json.Unmarshal\<close> on a document of the wrong shape;
  \<^item> \<open>WorldStateReadFailed e\<close>: "failed to read from world state: e";
  \<^item> \<open>NilMapPanic\<close>: the panic "assignment to entry in nil map".
\<close>

datatype error =
    Unauthorized
  | AlreadyExists string
  | NotFound string
  | IdentityResolutionError
  | InvalidCharacterError
  | TypeError
  | SyntaxError
  | StubError
  | UnmarshalTypeError
  | WorldStateReadFailed error
  | NilMapPanic

text \<open>JSON documents: what \<open>JSON.parse\<close> can return and \<open>JSON.stringify\<close> can write.\<close>

datatype json =
    JNull
  | JBool bool
  | JNum int
  | JStr string
  | JArr "json list"
  | JObj "(string \<times> json) list"

text \<open>
  The values a contract holds at run time: the JSON values, and the promise that an
  \<open>async\<close> method returns when it is called without \<open>await\<close>. The promise carries
  the result it settles with. No value of this type is a function.
\<close>

datatype jsval =
    Null
  | Bool bool
  | Num int
  | Str string
  | Arr "jsval list"
  | Obj "(string \<times> jsval) list"
  | Promise "error + string"

primrec of_json :: "json \<Rightarrow> jsval" where
  "of_json JNull = Null"
| "of_json (JBool b) = Bool b"
| "of_json (JNum n) = Num n"
| "of_json (JStr s) = Str s"
| "of_json (JArr xs) = Arr (map of_json xs)"
| "of_json (JObj fs) = Obj (map (map_prod id of_json) fs)"

text \<open>
  The document \<open>JSON.stringify\<close> writes for a value: a promise has no enumerable
  property of its own and no \<open>toJSON\<close>, so it is written as the empty object.
\<close>

primrec jsonify :: "jsval \<Rightarrow> json" where
  "jsonify Null = JNull"
| "jsonify (Bool b) = JBool b"
| "jsonify (Num n) = JNum n"
| "jsonify (Str s) = JStr s"
| "jsonify (Arr xs) = JArr (map jsonify xs)"
| "jsonify (Obj fs) = JObj (map (map_prod id jsonify) fs)"
| "jsonify (Promise p) = JObj []"

text \<open>
  The bytes of a ledger value. Bytes that are a JSON text are represented by the document
  they denote (\<open>JsonText\<close>), all other bytes by their characters (\<open>RawBytes\<close>, which
  \<open>JSON.parse\<close> rejects); the empty buffer is \<open>RawBytes []\<close>. So
  \<open>JSON.parse (JSON.stringify v)\<close> is the document of \<open>v\<close> by construction, and a
  JSON text is never empty.
\<close>

datatype buffer = JsonText json | RawBytes string

definition empty_buffer :: buffer where
  "empty_buffer = RawBytes []"

fun buffer_nonempty :: "buffer \<Rightarrow> bool" where
  "buffer_nonempty (JsonText j) = True"
| "buffer_nonempty (RawBytes s) = (s \<noteq> [])"

definition JSON_stringify :: "jsval \<Rightarrow> buffer" where
  "JSON_stringify v = JsonText (jsonify v)"

fun JSON_parse :: "buffer \<Rightarrow> error + jsval" where
  "JSON_parse (JsonText j) = Inr (of_json j)"
| "JSON_parse (RawBytes s) = Inl SyntaxError"

text \<open>Reading a property: \<open>None\<close> is \<open>undefined\<close>; reading one of \<open>null\<close> throws.\<close>

fun get_prop :: "jsval \<Rightarrow> string \<Rightarrow> error + jsval option" where
  "get_prop Null k = Inl TypeError"
| "get_prop (Obj fs) k = Inr (map_of fs k)"
| "get_prop v k = Inr None"

text \<open>
  Calling a property as a method, \<open>obj.name()\<close>: whatever the property holds it is not
  a function, so the call throws.
\<close>

definition call_method :: "jsval \<Rightarrow> string \<Rightarrow> error + jsval" where
  "call_method obj name = (case get_prop obj name of Inl e \<Rightarrow> Inl e | Inr f \<Rightarrow> Inl TypeError)"

text \<open>
  Writing a property, \<open>obj.k = v\<close>, in strict mode: an object gets the property (in
  place when it has it, last otherwise), an array gets a named property that
  \<open>JSON.stringify\<close> does not write, \<open>null\<close> and the primitives throw.
\<close>

fun set_prop :: "jsval \<Rightarrow> string \<Rightarrow> jsval \<Rightarrow> error + jsval" where
  "set_prop (Obj fs) k v = Inr (Obj (AList.update k v fs))"
| "set_prop (Arr xs) k v = Inr (Arr xs)"
| "set_prop (Promise p) k v = Inr (Promise p)"
| "set_prop u k v = Inl TypeError"

text \<open>
  \<open>p != v\<close> for a promise \<open>p\<close>: an object equals a primitive when its string form does,
  and the promise is no other object the contract holds.
\<close>

fun promise_loose_neq :: "jsval \<Rightarrow> bool" where
  "promise_loose_neq (Str s) = (s \<noteq> ''[object Promise]'')"
| "promise_loose_neq v = True"

section \<open>The transaction context\<close>

text \<open>
  What the host hands to a transaction: the world state (a key-value store, scanned in
  the store's order), the private data of the implicit collections, the transient map of
  the proposal, the event set by the transaction, and the submitting client's identity.
\<close>

record ctx =
  world :: "(string \<times> buffer) list"
  private_data :: "((string \<times> string) \<times> buffer) list"
  transient_map :: "(string \<times> buffer) list option"
  tx_event :: "(string \<times> buffer) option"
  client_attrs :: "(string \<times> string) list"
  client_id :: "string option"
  client_mspid :: string
  peer_mspid :: string

definition getState :: "ctx \<Rightarrow> string \<Rightarrow> buffer" where
  "getState c k = (case map_of (world c) k of None \<Rightarrow> empty_buffer | Some b \<Rightarrow> b)"

definition putState :: "ctx \<Rightarrow> string \<Rightarrow> buffer \<Rightarrow> ctx" where
  "putState c k b = c\<lparr>world := AList.update k b (world c)\<rparr>"

definition deleteState :: "ctx \<Rightarrow> string \<Rightarrow> ctx" where
  "deleteState c k = c\<lparr>world := AList.delete k (world c)\<rparr>"

definition getStateByRange_all :: "ctx \<Rightarrow> (string \<times> buffer) list" where
  "getStateByRange_all c = world c"

definition assertAttributeValue :: "ctx \<Rightarrow> string \<Rightarrow> string \<Rightarrow> bool" where
  "assertAttributeValue c name v = (map_of (client_attrs c) name = Some v)"

section \<open>The access-controlled contract (AssetTransferContract, AssetContract)\<close>

text \<open>
  The TypeScript class \<open>AssetTransferContract\<close> and the JavaScript class
  \<open>AssetContract\<close> have the same bodies, statement for statement; one model serves both.
  Every transaction returns what it returns or throws, and the context it leaves.
  \<open>atob\<close> is the platform's base64 decoder, \<open>None\<close> where it throws.
\<close>

definition GetSubmittingClientIdentity :: "(string \<Rightarrow> string option) \<Rightarrow> ctx \<Rightarrow> error + string" where
  "GetSubmittingClientIdentity atob c =
     (case client_id c of
        None \<Rightarrow> Inl IdentityResolutionError
      | Some b64ID \<Rightarrow>
          (case atob b64ID of
             None \<Rightarrow> Inl InvalidCharacterError
           | Some decodeID \<Rightarrow> Inr decodeID))"

definition AssetExists :: "ctx \<Rightarrow> string \<Rightarrow> bool" where
  "AssetExists c k = buffer_nonempty (getState c k)"

definition ReadAsset :: "ctx \<Rightarrow> string \<Rightarrow> (error + buffer) \<times> ctx" where
  "ReadAsset c k =
     (let assetJSON = getState c k in
      if \<not> buffer_nonempty assetJSON then (Inl (NotFound k), c)
      else (Inr assetJSON, c))"

text \<open>
  \<open>GetSubmittingClientIdentity\<close> is \<open>async\<close> and is called without \<open>await\<close>:
  \<open>clientID\<close> is the promise, not the string it settles with.
\<close>

definition CreateAsset ::
  "(string \<Rightarrow> string option) \<Rightarrow> ctx \<Rightarrow> string \<Rightarrow> string \<Rightarrow> int \<Rightarrow> int \<Rightarrow> (error + unit) \<times> ctx" where
  "CreateAsset atob c k color size' appraisedValue =
     (if \<not> assertAttributeValue c ''abac.creator'' ''true'' then (Inl Unauthorized, c)
      else if AssetExists c k then (Inl (AlreadyExists k), c)
      else
        let clientID = Promise (GetSubmittingClientIdentity atob c);
            asset = Obj [(''ID'', Str k), (''Color'', Str color), (''Size'', Num size'),
                         (''Owner'', clientID), (''AppraisedValue'', Num appraisedValue)]
        in (Inr (), putState c k (JSON_stringify asset)))"

definition UpdateAsset ::
  "(string \<Rightarrow> string option) \<Rightarrow> ctx \<Rightarrow> string \<Rightarrow> string \<Rightarrow> int \<Rightarrow> int \<Rightarrow> (error + unit) \<times> ctx" where
  "UpdateAsset atob c k color size' appraisedValue =
     (if \<not> AssetExists c k then (Inl (NotFound k), c)
      else
        let clientID = Promise (GetSubmittingClientIdentity atob c) in
        case fst (ReadAsset c k) of
          Inl e \<Rightarrow> (Inl e, c)
        | Inr assetString \<Rightarrow>
            (case JSON_parse assetString of
               Inl e \<Rightarrow> (Inl e, c)
             | Inr asset \<Rightarrow>
                 (case call_method asset ''getOwner'' of
                    Inl e \<Rightarrow> (Inl e, c)
                  | Inr owner \<Rightarrow>
                      if promise_loose_neq owner then (Inl Unauthorized, c)
                      else
                        let updatedAsset =
                              Obj [(''ID'', Str k), (''Color'', Str color), (''Size'', Num size'),
                                   (''Owner'', clientID), (''AppraisedValue'', Num appraisedValue)]
                        in (Inr (), putState c k (JSON_stringify updatedAsset)))))"

definition DeleteAsset ::
  "(string \<Rightarrow> string option) \<Rightarrow> ctx \<Rightarrow> string \<Rightarrow> (error + unit) \<times> ctx" where
  "DeleteAsset atob c k =
     (if \<not> AssetExists c k then (Inl (NotFound k), c)
      else
        let clientID = Promise (GetSubmittingClientIdentity atob c) in
        case fst (ReadAsset c k) of
          Inl e \<Rightarrow> (Inl e, c)
        | Inr assetString \<Rightarrow>
            (case JSON_parse assetString of
               Inl e \<Rightarrow> (Inl e, c)
             | Inr asset \<Rightarrow>
                 (case call_method asset ''getOwner'' of
                    Inl e \<Rightarrow> (Inl e, c)
                  | Inr owner \<Rightarrow>
                      if promise_loose_neq owner then (Inl Unauthorized, c)
                      else (Inr (), deleteState c k))))"

definition TransferAsset ::
  "(string \<Rightarrow> string option) \<Rightarrow> ctx \<Rightarrow> string \<Rightarrow> string \<Rightarrow> (error + unit) \<times> ctx" where
  "TransferAsset atob c k newOwner =
     (case fst (ReadAsset c k) of
        Inl e \<Rightarrow> (Inl e, c)
      | Inr assetString \<Rightarrow>
          (case JSON_parse assetString of
             Inl e \<Rightarrow> (Inl e, c)
           | Inr asset \<Rightarrow>
               let clientID = Promise (GetSubmittingClientIdentity atob c) in
               (case call_method asset ''getOwner'' of
                  Inl e \<Rightarrow> (Inl e, c)
                | Inr owner \<Rightarrow>
                    if promise_loose_neq owner then (Inl Unauthorized, c)
                    else
                      (case set_prop asset ''Owner'' (Str newOwner) of
                         Inl e \<Rightarrow> (Inl e, c)
                       | Inr asset' \<Rightarrow> (Inr (), putState c k (JSON_stringify asset'))))))"

text \<open>
  The scan loop of \<open>GetAllAssets\<close>: \<open>rest\<close> is what the iterator still yields,
  \<open>allResults\<close> the array built so far. A value that \<open>JSON.parse\<close> rejects is
  recorded as the string of its bytes.
\<close>

fun scan_loop :: "(string \<times> buffer) list \<Rightarrow> jsval list \<Rightarrow> jsval list" where
  "scan_loop [] allResults = allResults"
| "scan_loop ((key, value) # rest) allResults =
     (let record = (case value of JsonText j \<Rightarrow> of_json j | RawBytes strValue \<Rightarrow> Str strValue)
      in scan_loop rest (allResults @ [Obj [(''Key'', Str key), (''Record'', record)]]))"

definition GetAllAssets :: "ctx \<Rightarrow> (error + buffer) \<times> ctx" where
  "GetAllAssets c = (Inr (JSON_stringify (Arr (scan_loop (getStateByRange_all c) []))), c)"

section \<open>The event-emitting TypeScript contract (AssetTransferEvents)\<close>

definition implicit_collection :: "ctx \<Rightarrow> string" where
  "implicit_collection c = ''_implicit_org_'' @ peer_mspid c"

definition getPrivateData :: "ctx \<Rightarrow> string \<Rightarrow> string \<Rightarrow> buffer" where
  "getPrivateData c collection k =
     (case map_of (private_data c) (collection, k) of None \<Rightarrow> empty_buffer | Some b \<Rightarrow> b)"

definition putPrivateData :: "ctx \<Rightarrow> string \<Rightarrow> string \<Rightarrow> buffer \<Rightarrow> ctx" where
  "putPrivateData c collection k b =
     c\<lparr>private_data := AList.update (collection, k) b (private_data c)\<rparr>"

definition setEvent :: "ctx \<Rightarrow> string \<Rightarrow> buffer \<Rightarrow> ctx" where
  "setEvent c name payload = c\<lparr>tx_event := Some (name, payload)\<rparr>"

definition savePrivateData :: "ctx \<Rightarrow> string \<Rightarrow> ctx" where
  "savePrivateData c assetKey =
     (if client_mspid c = peer_mspid c then
        (case transient_map c of
           None \<Rightarrow> c
         | Some transientMap \<Rightarrow>
             (case map_of transientMap ''asset_properties'' of
                None \<Rightarrow> c
              | Some properties \<Rightarrow> putPrivateData c (implicit_collection c) assetKey properties))
      else c)"

text \<open>
  \<open>addPrivateData\<close> is handed \<open>asset.ID\<close> as the key, which is \<open>undefined\<close> or any
  JSON value when the stored document is not an asset; the stub takes string keys only.
  The function mutates \<open>asset\<close>; the model returns it.
\<close>

definition addPrivateData :: "ctx \<Rightarrow> jsval option \<Rightarrow> jsval \<Rightarrow> error + jsval" where
  "addPrivateData c assetKey asset =
     (if client_mspid c = peer_mspid c then
        (case assetKey of
           Some (Str k) \<Rightarrow>
             (let propertiesBuffer = getPrivateData c (implicit_collection c) k in
              if buffer_nonempty propertiesBuffer then
                (case JSON_parse propertiesBuffer of
                   Inl e \<Rightarrow> Inl e
                 | Inr properties \<Rightarrow> set_prop asset ''asset_properties'' properties)
              else Inr asset)
         | _ \<Rightarrow> Inl StubError)
      else Inr asset)"

definition readState :: "ctx \<Rightarrow> string \<Rightarrow> error + jsval" where
  "readState c k =
     (let assetBuffer = getState c k in
      if \<not> buffer_nonempty assetBuffer then Inl (NotFound k)
      else JSON_parse assetBuffer)"

definition CreateAsset_ev ::
  "ctx \<Rightarrow> string \<Rightarrow> string \<Rightarrow> int \<Rightarrow> string \<Rightarrow> int \<Rightarrow> (error + unit) \<times> ctx" where
  "CreateAsset_ev c k color size' owner appraisedValue =
     (let asset = Obj [(''ID'', Str k), (''Color'', Str color), (''Size'', Num size'),
                       (''Owner'', Str owner), (''AppraisedValue'', Num appraisedValue)];
          c1 = savePrivateData c k;
          assetBuffer = JSON_stringify asset;
          c2 = setEvent c1 ''CreateAsset'' assetBuffer
      in (Inr (), putState c2 k assetBuffer))"

definition TransferAsset_ev :: "ctx \<Rightarrow> string \<Rightarrow> string \<Rightarrow> (error + unit) \<times> ctx" where
  "TransferAsset_ev c k newOwner =
     (case readState c k of
        Inl e \<Rightarrow> (Inl e, c)
      | Inr asset \<Rightarrow>
          (case set_prop asset ''Owner'' (Str newOwner) of
             Inl e \<Rightarrow> (Inl e, c)
           | Inr asset' \<Rightarrow>
               let assetBuffer = JSON_stringify asset';
                   c1 = savePrivateData c k;
                   c2 = setEvent c1 ''TransferAsset'' assetBuffer
               in (Inr (), putState c2 k assetBuffer)))"

definition ReadAsset_ev :: "ctx \<Rightarrow> string \<Rightarrow> (error + buffer) \<times> ctx" where
  "ReadAsset_ev c k =
     (case readState c k of
        Inl e \<Rightarrow> (Inl e, c)
      | Inr asset \<Rightarrow>
          (case get_prop asset ''ID'' of
             Inl e \<Rightarrow> (Inl e, c)
           | Inr assetKey \<Rightarrow>
               (case addPrivateData c assetKey asset of
                  Inl e \<Rightarrow> (Inl e, c)
                | Inr asset' \<Rightarrow> (Inr (JSON_stringify asset'), c))))"

section \<open>The event-emitting Go contract (SmartContract)\<close>

text \<open>
  Modelled from the spec: the struct \<open>Asset\<close>, whose declaration (asset.go) is not
  among the sources. It has the five fields of the data model, written to and read from
  JSON under their own names.
\<close>

record asset =
  ID :: string
  Color :: string
  Size :: int
  Owner :: string
  AppraisedValue :: int

definition zero_asset :: asset where
  "zero_asset = \<lparr>ID = [], Color = [], Size = 0, Owner = [], AppraisedValue = 0\<rparr>"

definition then_do :: "error + 'a \<Rightarrow> ('a \<Rightarrow> error + 'b) \<Rightarrow> error + 'b" where
  "then_do r f = (case r of Inl e \<Rightarrow> Inl e | Inr x \<Rightarrow> f x)"

text \<open>
  \<open>json.Unmarshal\<close> into a string or an int field: an absent or \<open>null\<close> member
  leaves the zero value, a member of another type is an error.
\<close>

fun string_field :: "json option \<Rightarrow> error + string" where
  "string_field None = Inr []"
| "string_field (Some JNull) = Inr []"
| "string_field (Some (JStr s)) = Inr s"
| "string_field (Some j) = Inl UnmarshalTypeError"

fun int_field :: "json option \<Rightarrow> error + int" where
  "int_field None = Inr 0"
| "int_field (Some JNull) = Inr 0"
| "int_field (Some (JNum n)) = Inr n"
| "int_field (Some j) = Inl UnmarshalTypeError"

text \<open>
  \<open>json.Unmarshal(bytes, &asset)\<close> on a fresh \<open>Asset\<close>; \<open>None\<close> is the nil
  slice. The document \<open>null\<close> leaves the struct as it is.
\<close>

fun Unmarshal_asset :: "buffer option \<Rightarrow> error + asset" where
  "Unmarshal_asset None = Inl SyntaxError"
| "Unmarshal_asset (Some (RawBytes s)) = Inl SyntaxError"
| "Unmarshal_asset (Some (JsonText JNull)) = Inr zero_asset"
| "Unmarshal_asset (Some (JsonText (JObj fs))) =
     then_do (string_field (map_of fs ''ID'')) (\<lambda>i.
     then_do (string_field (map_of fs ''Color'')) (\<lambda>c.
     then_do (int_field (map_of fs ''Size'')) (\<lambda>s.
     then_do (string_field (map_of fs ''Owner'')) (\<lambda>ow.
     then_do (int_field (map_of fs ''AppraisedValue'')) (\<lambda>v.
       Inr \<lparr>ID = i, Color = c, Size = s, Owner = ow, AppraisedValue = v\<rparr>)))))"
| "Unmarshal_asset (Some (JsonText j)) = Inl UnmarshalTypeError"

definition Marshal_asset :: "asset \<Rightarrow> buffer" where
  "Marshal_asset a =
     JsonText (JObj [(''ID'', JStr (ID a)), (''Color'', JStr (Color a)), (''Size'', JNum (Size a)),
                     (''Owner'', JStr (Owner a)), (''AppraisedValue'', JNum (AppraisedValue a))])"

text \<open>\<open>GetState\<close> of the Go stub: nil (\<open>None\<close>) for a key that is not stored.\<close>

definition GetState_go :: "ctx \<Rightarrow> string \<Rightarrow> buffer option" where
  "GetState_go c k = map_of (world c) k"

definition GetPrivateData_go :: "ctx \<Rightarrow> string \<Rightarrow> string \<Rightarrow> buffer option" where
  "GetPrivateData_go c collection k = map_of (private_data c) (collection, k)"

text \<open>The stub of this model never fails, so the \<open>err != nil\<close> branches after its calls are not taken.\<close>

definition AssetExists_go :: "ctx \<Rightarrow> string \<Rightarrow> error + bool" where
  "AssetExists_go c k = (let asset = GetState_go c k in Inr (asset \<noteq> None))"

definition savePrivateData_go :: "ctx \<Rightarrow> string \<Rightarrow> ctx" where
  "savePrivateData_go c assetKey =
     (if client_mspid c = peer_mspid c then
        (let properties = (case transient_map c of
                             None \<Rightarrow> None
                           | Some transientMap \<Rightarrow> map_of transientMap ''asset_properties'')
         in case properties of
              None \<Rightarrow> c
            | Some p \<Rightarrow> putPrivateData c (implicit_collection c) assetKey p)
      else c)"

definition CreateAsset_go ::
  "ctx \<Rightarrow> string \<Rightarrow> string \<Rightarrow> int \<Rightarrow> string \<Rightarrow> int \<Rightarrow> (error + unit) \<times> ctx" where
  "CreateAsset_go c k color size' owner appraisedValue =
     (case AssetExists_go c k of
        Inl err \<Rightarrow> (Inl err, c)
      | Inr exists \<Rightarrow>
          if \<not> exists then (Inl (AlreadyExists k), c)
          else
            let asset = \<lparr>ID = k, Color = color, Size = size', Owner = owner,
                         AppraisedValue = appraisedValue\<rparr>;
                c1 = savePrivateData_go c k;
                assetJSON = Marshal_asset asset;
                c2 = setEvent c1 ''CreateAsset'' assetJSON
            in (Inr (), putState c2 k assetJSON))"

definition readState_go :: "ctx \<Rightarrow> string \<Rightarrow> error + asset" where
  "readState_go c k = (let assetBuffer = GetState_go c k in Unmarshal_asset assetBuffer)"

text \<open>A Go map of strings; \<open>None\<close> is the nil map, which cannot be assigned to.\<close>

definition map_assign ::
  "(string \<times> string) list option \<Rightarrow> string \<Rightarrow> string \<Rightarrow> error + (string \<times> string) list option" where
  "map_assign m k v =
     (case m of None \<Rightarrow> Inl NilMapPanic | Some kvs \<Rightarrow> Inr (Some (AList.update k v kvs)))"

fun Marshal_map :: "(string \<times> string) list option \<Rightarrow> buffer" where
  "Marshal_map None = JsonText JNull"
| "Marshal_map (Some kvs) = JsonText (JObj (map (map_prod id JStr) kvs))"

fun Sprint_nat :: "nat \<Rightarrow> string" where
  "Sprint_nat n =
     (if n < 10 then [char_of (48 + n)] else Sprint_nat (n div 10) @ [char_of (48 + n mod 10)])"

definition Sprint :: "int \<Rightarrow> string" where
  "Sprint i = (if i < 0 then CHR ''-'' # Sprint_nat (nat (- i)) else Sprint_nat (nat i))"

text \<open>
  \<open>addPrivateData\<close>: \<open>tMap\<close> is declared and never made, so it is the nil map.
  The result is the JSON bytes and nil, nil and nil, or an error; the error of
  unmarshalling the properties is dropped, the string staying empty.
\<close>

definition addPrivateData_go :: "ctx \<Rightarrow> string \<Rightarrow> asset \<Rightarrow> error + buffer option" where
  "addPrivateData_go c assetKey a =
     (if client_mspid c = peer_mspid c then
        (let propertiesBuffer = GetPrivateData_go c (implicit_collection c) assetKey;
             tMap = None
         in then_do (map_assign tMap ''ID'' (ID a)) (\<lambda>t1.
            then_do (map_assign t1 ''Color'' (Color a)) (\<lambda>t2.
            then_do (map_assign t2 ''Owner'' (Owner a)) (\<lambda>t3.
            then_do (map_assign t3 ''Size'' (Sprint (Size a))) (\<lambda>t4.
            then_do (map_assign t4 ''AppraisedValue'' (Sprint (AppraisedValue a))) (\<lambda>t5.
              (case propertiesBuffer of
                 None \<Rightarrow> Inr None
               | Some pb \<Rightarrow>
                   if buffer_nonempty pb then
                     (let properties = (case pb of JsonText (JStr s) \<Rightarrow> s | _ \<Rightarrow> [])
                      in then_do (map_assign t5 ''asset_properties'' properties) (\<lambda>t6.
                           Inr (Some (Marshal_map t6))))
                   else Inr None)))))))
      else Inr None)"

definition ReadAsset_go :: "ctx \<Rightarrow> string \<Rightarrow> (error + asset) \<times> ctx" where
  "ReadAsset_go c k =
     (case readState_go c k of
        Inl err \<Rightarrow> (Inl (WorldStateReadFailed err), c)
      | Inr a \<Rightarrow>
          (case addPrivateData_go c (ID a) a of
             Inl err \<Rightarrow> (Inl err, c)
           | Inr assetJSON \<Rightarrow>
               (case Unmarshal_asset assetJSON of
                  Inl err \<Rightarrow> (Inl err, c)
                | Inr asset1 \<Rightarrow> (Inr asset1, c))))"

declare Sprint_nat.simps [simp del]

section \<open>A sample ledger\<close>

text \<open>
  One asset, \<open>asset1\<close>, owned by alice, with private properties in the collection of
  the peer's organisation Org1MSP. The submitting client is bob of Org2MSP, who carries
  \<open>abac.creator = true\<close>; \<open>Ym9i\<close> and \<open>YWxpY2U=\<close> are the base64 of bob and alice.
\<close>

definition example_atob :: "string \<Rightarrow> string option" where
  "example_atob s =
     (if s = ''Ym9i'' then Some ''bob'' else if s = ''YWxpY2U='' then Some ''alice'' else None)"

definition example_asset :: json where
  "example_asset =
     JObj [(''ID'', JStr ''asset1''), (''Color'', JStr ''blue''), (''Size'', JNum 5),
           (''Owner'', JStr ''alice''), (''AppraisedValue'', JNum 300)]"

definition example_ctx :: ctx where
  "example_ctx =
     \<lparr>world = [(''asset1'', JsonText example_asset)],
      private_data = [((''_implicit_org_Org1MSP'', ''asset1''), JsonText (JStr ''appraisal notes''))],
      transient_map = None, tx_event = None,
      client_attrs = [(''abac.creator'', ''true'')], client_id = Some ''Ym9i'',
      client_mspid = ''Org2MSP'', peer_mspid = ''Org1MSP''\<rparr>"

section \<open>JSON round trip and field updates\<close>

lemma jsonify_of_json: "jsonify (of_json j) = j"
  by (induction j) (auto intro!: map_idI simp: map_prod_def split: prod.splits)

lemma fields_roundtrip: "map (map_prod id jsonify \<circ> map_prod id of_json) fs = fs"
  by (induction fs) (auto simp: jsonify_of_json)

lemma map_prod_update:
  "map (map_prod id f) (AList.update k v fs) = AList.update k (f v) (map (map_prod id f) fs)"
  by (induction fs) auto

lemma map_of_fields: "map_of (map (map_prod id f) fs) k = map_option f (map_of fs k)"
  by (induction fs) auto

lemma AssetExists_after_put: "AssetExists (putState c k (JSON_stringify v)) k"
  by (simp add: AssetExists_def getState_def putState_def JSON_stringify_def update_conv')

section \<open>Creation\<close>

text \<open>
  C1, as the access-controlled contract has it. \<open>CreateAsset\<close> on an id that has a
  record never writes: it throws and leaves the context, so the record, as it was. The
  attribute check comes first, so the error is \<open>AlreadyExists\<close> for a caller that
  carries \<open>abac.creator = true\<close> and \<open>Unauthorized\<close> for any other caller.
\<close>

theorem CreateAsset_on_existing_id:
  "AssetExists c k \<Longrightarrow>
   CreateAsset atob c k color sz v =
     (Inl (if assertAttributeValue c ''abac.creator'' ''true'' then AlreadyExists k
           else Unauthorized), c)"
  by (simp add: CreateAsset_def)

theorem CreateAsset_on_existing_id_witness:
  "AssetExists example_ctx ''asset1'' \<and>
   CreateAsset example_atob example_ctx ''asset1'' ''red'' 1 2 =
     (Inl (AlreadyExists ''asset1''), example_ctx)"
  using CreateAsset_on_existing_id [of example_ctx "''asset1''" example_atob "''red''" 1 2]
  by (simp add: AssetExists_def getState_def example_ctx_def assertAttributeValue_def)

text \<open>
  The same call by a client without the attribute: the record exists and the error is
  not \<open>AlreadyExists\<close>.
\<close>

theorem CreateAsset_existing_unauthorized_counterexample:
  "AssetExists (example_ctx\<lparr>client_attrs := []\<rparr>) ''asset1'' \<and>
   fst (CreateAsset example_atob (example_ctx\<lparr>client_attrs := []\<rparr>) ''asset1'' ''red'' 1 2)
     \<noteq> Inl (AlreadyExists ''asset1'')"
  by (simp add: CreateAsset_def AssetExists_def getState_def example_ctx_def
        assertAttributeValue_def)

text \<open>
  The Go contract tests \<open>!exists\<close>: it reports "already exists" for a free id and
  writes over a stored one. The event-emitting TypeScript contract does not look at all.
\<close>

lemma CreateAsset_go_inverted_check:
  "CreateAsset_go c k color sz owner v =
     (if map_of (world c) k = None then (Inl (AlreadyExists k), c)
      else (Inr (), putState (setEvent (savePrivateData_go c k) ''CreateAsset''
                      (Marshal_asset \<lparr>ID = k, Color = color, Size = sz, Owner = owner,
                                      AppraisedValue = v\<rparr>))
                    k (Marshal_asset \<lparr>ID = k, Color = color, Size = sz, Owner = owner,
                                      AppraisedValue = v\<rparr>)))"
  by (simp add: CreateAsset_go_def AssetExists_go_def GetState_go_def Let_def)

lemma CreateAsset_ev_overwrites:
  "fst (CreateAsset_ev c k color sz owner v) = Inr () \<and>
   getState (snd (CreateAsset_ev c k color sz owner v)) k =
     JsonText (JObj [(''ID'', JStr k), (''Color'', JStr color), (''Size'', JNum sz),
                     (''Owner'', JStr owner), (''AppraisedValue'', JNum v)])"
  by (simp add: CreateAsset_ev_def Let_def getState_def putState_def update_conv'
        JSON_stringify_def)

text \<open>
  C4, as the contracts have it. A client that does not carry \<open>abac.creator = true\<close>
  gets \<open>Unauthorized\<close> from \<open>CreateAsset\<close> of the access-controlled contract,
  whether the id is free or not, and the context is left as it was. The event-emitting
  TypeScript contract has no such check: its \<open>CreateAsset\<close> succeeds for the same
  client and stores the asset.
\<close>

theorem CreateAsset_requires_creator_attribute:
  "map_of (client_attrs c) ''abac.creator'' \<noteq> Some ''true'' \<Longrightarrow>
   CreateAsset atob c k color sz v = (Inl Unauthorized, c) \<and>
   fst (CreateAsset_ev c k color sz owner v) = Inr () \<and>
   getState (snd (CreateAsset_ev c k color sz owner v)) k =
     JsonText (JObj [(''ID'', JStr k), (''Color'', JStr color), (''Size'', JNum sz),
                     (''Owner'', JStr owner), (''AppraisedValue'', JNum v)])"
  by (simp add: CreateAsset_def assertAttributeValue_def CreateAsset_ev_overwrites)

theorem CreateAsset_requires_creator_attribute_witness:
  "map_of (client_attrs (example_ctx\<lparr>client_attrs := [(''abac.creator'', ''false'')]\<rparr>))
     ''abac.creator'' \<noteq> Some ''true'' \<and>
   CreateAsset example_atob (example_ctx\<lparr>client_attrs := [(''abac.creator'', ''false'')]\<rparr>)
       ''asset2'' ''red'' 1 2 =
     (Inl Unauthorized, example_ctx\<lparr>client_attrs := [(''abac.creator'', ''false'')]\<rparr>) \<and>
   CreateAsset example_atob (example_ctx\<lparr>client_attrs := [(''abac.creator'', ''false'')]\<rparr>)
       ''asset1'' ''red'' 1 2 =
     (Inl Unauthorized, example_ctx\<lparr>client_attrs := [(''abac.creator'', ''false'')]\<rparr>) \<and>
   fst (CreateAsset_ev (example_ctx\<lparr>client_attrs := [(''abac.creator'', ''false'')]\<rparr>)
          ''asset2'' ''red'' 1 ''bob'' 2) = Inr ()"
  using CreateAsset_requires_creator_attribute
          [of "example_ctx\<lparr>client_attrs := [(''abac.creator'', ''false'')]\<rparr>"
              example_atob "''asset2''" "''red''" 1 2 "''bob''"]
        CreateAsset_requires_creator_attribute
          [of "example_ctx\<lparr>client_attrs := [(''abac.creator'', ''false'')]\<rparr>"
              example_atob "''asset1''" "''red''" 1 2 "''bob''"]
  by simp

text \<open>
  The event-emitting TypeScript contract at the sample ledger, the client carrying no
  attribute at all: \<open>CreateAsset\<close> does not fail with \<open>Unauthorized\<close>, and \<open>asset2\<close>
  is stored.
\<close>

theorem CreateAsset_ev_without_attribute_counterexample:
  "map_of (client_attrs (example_ctx\<lparr>client_attrs := []\<rparr>)) ''abac.creator'' \<noteq> Some ''true'' \<and>
   fst (CreateAsset_ev (example_ctx\<lparr>client_attrs := []\<rparr>) ''asset2'' ''red'' 7 ''bob'' 100)
     \<noteq> Inl Unauthorized \<and>
   getState (snd (CreateAsset_ev (example_ctx\<lparr>client_attrs := []\<rparr>) ''asset2'' ''red'' 7 ''bob'' 100))
       ''asset2'' =
     JsonText (JObj [(''ID'', JStr ''asset2''), (''Color'', JStr ''red''), (''Size'', JNum 7),
                     (''Owner'', JStr ''bob''), (''AppraisedValue'', JNum 100)])"
  by (simp add: CreateAsset_ev_def Let_def getState_def putState_def update_conv'
        JSON_stringify_def)

text \<open>
  What a successful \<open>CreateAsset\<close> of the access-controlled contract stores, for every
  caller and every free id: \<open>clientID\<close> is a promise, written as the empty object.
\<close>

lemma CreateAsset_stores_promise_as_owner:
  assumes "assertAttributeValue c ''abac.creator'' ''true''" and "\<not> AssetExists c k"
  shows "fst (CreateAsset atob c k color sz v) = Inr () \<and>
         fst (ReadAsset (snd (CreateAsset atob c k color sz v)) k) =
           Inr (JsonText (JObj [(''ID'', JStr k), (''Color'', JStr color), (''Size'', JNum sz),
                                (''Owner'', JObj []), (''AppraisedValue'', JNum v)]))"
  using assms
  by (simp add: CreateAsset_def ReadAsset_def Let_def getState_def putState_def update_conv'
        JSON_stringify_def)

text \<open>
  C3, at the sample ledger. bob, whose identity resolves to the string \<open>bob\<close>, creates
  \<open>asset2\<close>; reading it back gives the colour, size and value he passed, and as
  \<open>Owner\<close> the empty object: the promise of the identity was stored, not the identity.
\<close>

theorem created_asset_owner_is_empty_object:
  "GetSubmittingClientIdentity example_atob example_ctx = Inr ''bob'' \<and>
   fst (CreateAsset example_atob example_ctx ''asset2'' ''red'' 7 100) = Inr () \<and>
   fst (ReadAsset (snd (CreateAsset example_atob example_ctx ''asset2'' ''red'' 7 100)) ''asset2'') =
     Inr (JsonText (JObj [(''ID'', JStr ''asset2''), (''Color'', JStr ''red''), (''Size'', JNum 7),
                          (''Owner'', JObj []), (''AppraisedValue'', JNum 100)]))"
  by (simp add: CreateAsset_def ReadAsset_def AssetExists_def assertAttributeValue_def
        Let_def getState_def putState_def example_ctx_def example_atob_def
        GetSubmittingClientIdentity_def JSON_stringify_def empty_buffer_def)

text \<open>
  In the access-controlled contract \<open>AssetExists\<close> answers false for a key that is not
  stored, and around every successful \<open>CreateAsset\<close> it is false before and true after.
\<close>

lemma AssetExists_absent: "map_of (world c) k = None \<Longrightarrow> AssetExists c k = False"
  by (simp add: AssetExists_def getState_def empty_buffer_def)

lemma AssetExists_around_creation:
  "CreateAsset atob c k color sz v = (Inr (), c') \<Longrightarrow> \<not> AssetExists c k \<and> AssetExists c' k"
  by (auto simp: CreateAsset_def AssetExists_after_put Let_def split: if_splits)

text \<open>
  \<open>AssetExists\<close> of the Go contract answers, without an error, whether the key is
  stored. \<open>CreateAsset\<close> of the Go contract goes on when it answers true and stops when
  it answers false, so a creation that succeeds has \<open>AssetExists\<close> true before it, and
  a free id is never created.
\<close>

lemma AssetExists_go_stored: "AssetExists_go c k = Inr (map_of (world c) k \<noteq> None)"
  by (simp add: AssetExists_go_def GetState_go_def)

lemma CreateAsset_go_needs_stored_id:
  "fst (CreateAsset_go c k color sz owner v) = Inr () \<Longrightarrow> AssetExists_go c k = Inr True"
  by (simp add: CreateAsset_go_inverted_check AssetExists_go_stored split: if_splits)

lemma CreateAsset_go_free_id:
  "AssetExists_go c k = Inr False \<Longrightarrow>
   CreateAsset_go c k color sz owner v = (Inl (AlreadyExists k), c)"
  by (simp add: CreateAsset_go_inverted_check AssetExists_go_stored)

text \<open>
  C6, at the sample ledger, in the Go contract. \<open>asset2\<close> is not stored:
  \<open>AssetExists\<close> answers false, \<open>CreateAsset\<close> fails with "already exists" and the
  context is unchanged, so \<open>AssetExists\<close> stays false. \<open>asset1\<close> is stored:
  \<open>AssetExists\<close> answers true before \<open>CreateAsset\<close>, which succeeds, and true after.
\<close>

theorem CreateAsset_go_inverts_existence:
  "AssetExists_go example_ctx ''asset2'' = Inr False \<and>
   CreateAsset_go example_ctx ''asset2'' ''red'' 7 ''bob'' 100 =
     (Inl (AlreadyExists ''asset2''), example_ctx) \<and>
   AssetExists_go example_ctx ''asset1'' = Inr True \<and>
   fst (CreateAsset_go example_ctx ''asset1'' ''red'' 7 ''bob'' 100) = Inr () \<and>
   AssetExists_go (snd (CreateAsset_go example_ctx ''asset1'' ''red'' 7 ''bob'' 100)) ''asset1'' =
     Inr True \<and>
   GetState_go (snd (CreateAsset_go example_ctx ''asset1'' ''red'' 7 ''bob'' 100)) ''asset1'' =
     Some (JsonText (JObj [(''ID'', JStr ''asset1''), (''Color'', JStr ''red''), (''Size'', JNum 7),
                           (''Owner'', JStr ''bob''), (''AppraisedValue'', JNum 100)]))"
  by (simp add: CreateAsset_go_def AssetExists_go_def GetState_go_def Let_def example_ctx_def
        putState_def setEvent_def savePrivateData_go_def Marshal_asset_def)

section \<open>Update, delete and transfer\<close>

text \<open>
  In the access-controlled contract the three mutating transactions compare the caller
  with \<open>asset.getOwner()\<close>, and \<open>asset\<close> is what \<open>JSON.parse\<close> returned: the call
  throws before the comparison. So on a stored record each of them throws, for every
  caller, and leaves the context as it was.
\<close>

lemma owner_check_always_throws:
  assumes "AssetExists c k"
  shows "\<exists>e. (e = TypeError \<or> e = SyntaxError) \<and>
           UpdateAsset atob c k color sz v = (Inl e, c) \<and>
           DeleteAsset atob c k = (Inl e, c) \<and>
           TransferAsset atob c k newOwner = (Inl e, c)"
proof (cases "getState c k")
  case (JsonText j)
  then show ?thesis using assms
    by (cases "of_json j")
       (auto simp: UpdateAsset_def DeleteAsset_def TransferAsset_def ReadAsset_def
                   AssetExists_def call_method_def Let_def)
next
  case (RawBytes s)
  then show ?thesis using assms
    by (auto simp: UpdateAsset_def DeleteAsset_def TransferAsset_def ReadAsset_def
                   AssetExists_def Let_def)
qed

text \<open>
  C2, at the sample ledger. \<open>asset1\<close> is owned by alice and the caller resolves to bob.
  \<open>UpdateAsset\<close>, \<open>DeleteAsset\<close> and \<open>TransferAsset\<close> leave the context unchanged,
  and the error each throws is \<open>TypeError\<close>, not \<open>Unauthorized\<close>.
\<close>

theorem non_owner_mutation_throws_TypeError:
  "GetSubmittingClientIdentity example_atob example_ctx = Inr ''bob'' \<and>
   getState example_ctx ''asset1'' = JsonText example_asset \<and>
   UpdateAsset example_atob example_ctx ''asset1'' ''red'' 1 2 = (Inl TypeError, example_ctx) \<and>
   DeleteAsset example_atob example_ctx ''asset1'' = (Inl TypeError, example_ctx) \<and>
   TransferAsset example_atob example_ctx ''asset1'' ''carol'' = (Inl TypeError, example_ctx)"
  by (simp add: UpdateAsset_def DeleteAsset_def TransferAsset_def ReadAsset_def AssetExists_def
        call_method_def Let_def getState_def example_ctx_def example_atob_def
        GetSubmittingClientIdentity_def example_asset_def)

text \<open>
  C7, at the sample ledger with alice, the owner of \<open>asset1\<close>, as the caller: her
  \<open>TransferAsset\<close> to bob throws \<open>TypeError\<close> and the record keeps its owner.
\<close>

theorem owner_transfer_throws_TypeError:
  "GetSubmittingClientIdentity example_atob (example_ctx\<lparr>client_id := Some ''YWxpY2U=''\<rparr>) =
     Inr ''alice'' \<and>
   getState (example_ctx\<lparr>client_id := Some ''YWxpY2U=''\<rparr>) ''asset1'' = JsonText example_asset \<and>
   TransferAsset example_atob (example_ctx\<lparr>client_id := Some ''YWxpY2U=''\<rparr>) ''asset1'' ''bob'' =
     (Inl TypeError, example_ctx\<lparr>client_id := Some ''YWxpY2U=''\<rparr>)"
  by (simp add: TransferAsset_def ReadAsset_def AssetExists_def call_method_def Let_def
        getState_def example_ctx_def example_atob_def GetSubmittingClientIdentity_def
        example_asset_def)

text \<open>
  The event-emitting TypeScript contract has no owner check: \<open>TransferAsset\<close> on a
  stored object succeeds for every caller and stores the new owner.
\<close>

lemma TransferAsset_ev_sets_owner:
  assumes "map_of (world c) k = Some (JsonText (JObj fs))"
  shows "fst (TransferAsset_ev c k newOwner) = Inr () \<and>
         getState (snd (TransferAsset_ev c k newOwner)) k =
           JsonText (JObj (AList.update ''Owner'' (JStr newOwner) fs))"
  using assms
  by (simp add: TransferAsset_ev_def readState_def getState_def JSON_stringify_def Let_def
        putState_def setEvent_def savePrivateData_def putPrivateData_def update_conv'
        map_prod_update [where f = jsonify and v = "Str newOwner", simplified] fields_roundtrip
        split: option.splits)

section \<open>Reading\<close>

text \<open>The two TypeScript contracts and the JavaScript one report a missing record as such.\<close>

lemma ReadAsset_absent: "\<not> AssetExists c k \<Longrightarrow> ReadAsset c k = (Inl (NotFound k), c)"
  by (simp add: ReadAsset_def AssetExists_def)

lemma ReadAsset_ev_absent: "\<not> AssetExists c k \<Longrightarrow> ReadAsset_ev c k = (Inl (NotFound k), c)"
  by (simp add: ReadAsset_ev_def readState_def AssetExists_def)

text \<open>
  The Go contract does not: \<open>GetState\<close> returns nil without an error for a missing key,
  \<open>readState\<close> hands the nil slice to \<open>json.Unmarshal\<close>, and the error is the
  decoder's.
\<close>

lemma ReadAsset_go_absent:
  "map_of (world c) k = None \<Longrightarrow> ReadAsset_go c k = (Inl (WorldStateReadFailed SyntaxError), c)"
  by (simp add: ReadAsset_go_def readState_go_def GetState_go_def)

text \<open>
  C5, at the sample ledger, which has no \<open>asset9\<close>: \<open>ReadAsset\<close> of the Go contract
  fails with "failed to read from world state: unexpected end of JSON input", where
  the other contracts fail with \<open>NotFound\<close>.
\<close>

theorem ReadAsset_go_missing_key:
  "map_of (world example_ctx) ''asset9'' = None \<and>
   ReadAsset_go example_ctx ''asset9'' = (Inl (WorldStateReadFailed SyntaxError), example_ctx) \<and>
   ReadAsset example_ctx ''asset9'' = (Inl (NotFound ''asset9''), example_ctx) \<and>
   ReadAsset_ev example_ctx ''asset9'' = (Inl (NotFound ''asset9''), example_ctx)"
  by (simp add: ReadAsset_go_def readState_go_def GetState_go_def example_ctx_def
        ReadAsset_def ReadAsset_ev_def readState_def getState_def empty_buffer_def)

text \<open>
  In the event-emitting TypeScript contract a stored asset is read with its private
  properties exactly when the client's organisation is the peer's.
\<close>

lemma ReadAsset_ev_private_data:
  assumes "map_of (world c) k = Some (JsonText (JObj fs))"
    and "map_of fs ''ID'' = Some (JStr k)"
    and "map_of (private_data c) (implicit_collection c, k) = Some (JsonText p)"
  shows "ReadAsset_ev c k =
           (Inr (JsonText (JObj (if client_mspid c = peer_mspid c
                                 then AList.update ''asset_properties'' p fs else fs))), c)"
  using assms
  by (simp add: ReadAsset_ev_def readState_def getState_def addPrivateData_def getPrivateData_def
        map_of_fields JSON_stringify_def map_prod_update [symmetric] fields_roundtrip
        jsonify_of_json)

text \<open>
  C8, at the sample ledger. \<open>ReadAsset\<close> of the Go contract returns no asset to either
  kind of client: for bob of Org2MSP \<open>addPrivateData\<close> returns nil bytes, which do not
  unmarshal; for a client of the peer's Org1MSP it assigns to the nil map and panics.
\<close>

theorem ReadAsset_go_never_returns_asset:
  "ReadAsset_go example_ctx ''asset1'' = (Inl SyntaxError, example_ctx) \<and>
   ReadAsset_go (example_ctx\<lparr>client_mspid := ''Org1MSP''\<rparr>) ''asset1'' =
     (Inl NilMapPanic, example_ctx\<lparr>client_mspid := ''Org1MSP''\<rparr>)"
  by (simp add: ReadAsset_go_def readState_go_def GetState_go_def example_ctx_def
        example_asset_def then_do_def addPrivateData_go_def map_assign_def Let_def)

text \<open>
  C10. \<open>ReadAsset\<close> (of the access-controlled and of the event-emitting TypeScript
  contract) and \<open>GetAllAssets\<close> leave the context, and so the world state, as it was,
  on success and on failure. \<open>AssetExists\<close> returns a boolean and nothing else.
\<close>

theorem read_only_operations_keep_context:
  "snd (ReadAsset c k) = c \<and> snd (GetAllAssets c) = c \<and> snd (ReadAsset_ev c k) = c"
  by (simp add: ReadAsset_def GetAllAssets_def ReadAsset_ev_def Let_def split: sum.splits)

section \<open>Listing\<close>

lemma scan_loop_entries:
  "map jsonify (scan_loop rest acc) =
     map jsonify acc @
     map (\<lambda>(key, value). JObj [(''Key'', JStr key),
            (''Record'', case value of JsonText j \<Rightarrow> j | RawBytes s \<Rightarrow> JStr s)]) rest"
  by (induction rest acc rule: scan_loop.induct) (auto simp: jsonify_of_json split: buffer.splits)

text \<open>
  C9. \<open>GetAllAssets\<close> always returns, with one entry for each key-value pair the scan
  yields, in the scan's order: the key, and as \<open>Record\<close> the decoded document, or the
  bytes as a string when they do not decode.
\<close>

theorem GetAllAssets_lists_every_entry:
  "GetAllAssets c =
     (Inr (JsonText (JArr (map (\<lambda>(key, value). JObj [(''Key'', JStr key),
            (''Record'', case value of JsonText j \<Rightarrow> j | RawBytes s \<Rightarrow> JStr s)])
          (getStateByRange_all c)))), c)"
  by (simp add: GetAllAssets_def JSON_stringify_def scan_loop_entries)

end
